theory Spec2Isabelle
  imports Main "HOL-Library.Multiset" "HOL-Library.Char_ord"
begin

section \<open>Go types as seen through go/types\<close>

text \<open>
  The generator never builds types; it receives them from the type checker and asks
  questions of them (\<open>Underlying\<close>, \<open>Elem\<close>, \<open>Field\<close>, \<open>Method\<close>, \<open>Obj\<close>).
  A named type is a reference into a table of declarations, so that a type graph may be
  cyclic (\<open>A\<close> holding \<open>*B\<close>, \<open>B\<close> holding \<open>*A\<close>); every other type is a term.
  \<open>NoType\<close> stands for the nil \<open>types.Type\<close>. Type parameters, aliases, function types
  and tuples are outside the modelled universe.
\<close>

datatype package = Package (pkgName: string) (pkgPath: string)

datatype chanDir = SendRecv | SendOnly | RecvOnly

datatype gotype =
    NoType
  | Basic string
  | Named nat
  | Pointer gotype
  | Slice gotype
  | Array nat gotype
  | Map gotype gotype
  | Chan chanDir gotype
  | Struct "field list"
  | Interface "gofunc list"
and field =
    Field (fieldName: string) (fieldType: gotype) (fieldExported: bool)
          (fieldEmbedded: bool) (fieldTag: string)
and gofunc =
    Func (funcName: string) (sigParams: "gotype list") (sigResults: "gotype list")
           (sigRecv: gotype)

record namedDecl =
  objPkg :: "package option"
  objName :: string
  methods :: "gofunc list"
  underlying :: gotype

type_synonym tenv = "nat \<Rightarrow> namedDecl"

datatype failure = Error string | Panic string

text \<open>\<open>types.Identical\<close>: two named types are identical when they are the same
  declaration, all other types when they have the same structure.\<close>

definition Identical :: "gotype \<Rightarrow> gotype \<Rightarrow> bool" where
  "Identical a b = (a = b)"

text \<open>\<open>m.Underlying()\<close>.\<close>

fun Underlying :: "tenv \<Rightarrow> gotype \<Rightarrow> gotype" where
  "Underlying env (Named i) = underlying (env i)"
| "Underlying env t = t"

text \<open>The type assertion \<open>m.(methoder)\<close>: only \<open>*types.Named\<close> and \<open>*types.Interface\<close>
  have \<open>Method\<close> and \<open>NumMethods\<close>. The result is the list of methods the loop of
  \<open>hasDeepCopy\<close> runs over.\<close>

fun methoder :: "tenv \<Rightarrow> gotype \<Rightarrow> gofunc list option" where
  "methoder env (Named i) = Some (methods (env i))"
| "methoder env (Interface ms) = Some ms"
| "methoder env t = None"

section \<open>Skip lists\<close>

type_synonym skips = "string set"

text \<open>\<open>SkipLists.Get\<close>: \<open>i\<close> is a Go \<open>int\<close>; indexing a slice with a negative
  index panics.\<close>

definition SkipLists_Get :: "skips list \<Rightarrow> int \<Rightarrow> failure + skips" where
  "SkipLists_Get l i =
     (if i < int (length l)
      then (if i < 0 then Inl (Panic ''index out of range'') else Inr (l ! nat i))
      else Inr {})"

definition skips_Contains :: "skips \<Rightarrow> string \<Rightarrow> bool" where
  "skips_Contains s sel = (if sel \<in> s then True else False)"

section \<open>The generator and the method-reuse detector\<close>

record generator =
  isPtrRecv :: bool
  maxDepth :: int
  methodName :: string
  skipLists :: "skips list"

text \<open>\<open>reducePointer\<close> asserts the interface \<open>pointer\<close>, whose only method is
  \<open>Elem() types.Type\<close>. In go/types that method is declared by \<open>*Pointer\<close>, and also by
  \<open>*Slice\<close>, \<open>*Array\<close>, \<open>*Map\<close> and \<open>*Chan\<close>, so the assertion succeeds for all five.\<close>

fun reducePointer :: "gotype \<Rightarrow> gotype \<times> bool" where
  "reducePointer (Pointer t) = (t, True)"
| "reducePointer (Slice t) = (t, True)"
| "reducePointer (Array n t) = (t, True)"
| "reducePointer (Map k t) = (t, True)"
| "reducePointer (Chan d t) = (t, True)"
| "reducePointer t = (t, False)"

text \<open>The second loop of \<open>hasDeepCopy\<close>, over the methods in declaration order.
  \<open>m.Type()\<close> of a \<open>*types.Func\<close> is always a \<open>*types.Signature\<close>, so that
  assertion has no failing branch here.\<close>

fun scanMethods :: "string \<Rightarrow> gofunc list \<Rightarrow> bool \<times> bool" where
  "scanMethods name [] = (False, False)"
| "scanMethods name (m # ms) =
     (if funcName m \<noteq> name then scanMethods name ms
      else if length (sigParams m) \<noteq> 0 then scanMethods name ms
      else if length (sigResults m) \<noteq> 1 then scanMethods name ms
      else (let (retType, retPointer) = reducePointer (hd (sigResults m));
                (sigType, _) = reducePointer (sigRecv m)
            in if \<not> Identical retType sigType then (False, False)
               else (True, retPointer)))"

text \<open>The first loop of \<open>hasDeepCopy\<close>, over the types being generated.\<close>

fun inGenerating :: "gotype \<Rightarrow> gotype list \<Rightarrow> bool" where
  "inGenerating v [] = False"
| "inGenerating v (t # ts) = (if Identical v t then True else inGenerating v ts)"

text \<open>\<open>hasDeepCopy\<close>, for a type \<open>v\<close> that passed the \<open>methoder\<close> assertion with
  gofunc list \<open>ms\<close>.\<close>

definition hasDeepCopy :: "generator \<Rightarrow> gotype \<Rightarrow> gofunc list \<Rightarrow> gotype list \<Rightarrow> bool \<times> bool" where
  "hasDeepCopy g v ms generating =
     (if inGenerating v generating then (True, isPtrRecv g)
      else scanMethods (methodName g) ms)"

section \<open>Strings\<close>

text \<open>Go strings are byte sequences; the helpers below are the functions of
  \<open>strings\<close> and \<open>strconv\<close> the generator calls, at the arguments it calls them with.\<close>

definition NL :: string where
  "NL = [CHR 0x0A]"

definition TAB :: string where
  "TAB = [CHR 0x09]"

text \<open>\<open>sel[strings.Index(sel, ".")+1:]\<close>: the text after the first dot; \<open>Index\<close> is
  \<open>-1\<close> when there is no dot, and the slice is then the whole string.\<close>

definition afterFirstDot :: "string \<Rightarrow> string" where
  "afterFirstDot s =
     (case dropWhile (\<lambda>c. c \<noteq> CHR ''.'') s of [] \<Rightarrow> s | d # r \<Rightarrow> r)"

text \<open>\<open>strings.Split(s, ".")\<close>: never empty; \<open>Split("", ".")\<close> is one empty string.\<close>

fun splitDot :: "string \<Rightarrow> string list" where
  "splitDot [] = [[]]"
| "splitDot (c # cs) =
     (if c = CHR ''.'' then [] # splitDot cs
      else (case splitDot cs of [] \<Rightarrow> [[c]] | p # ps \<Rightarrow> (c # p) # ps))"

text \<open>\<open>strings.Join(ps, ".")\<close>.\<close>

fun joinDot :: "string list \<Rightarrow> string" where
  "joinDot [] = []"
| "joinDot [p] = p"
| "joinDot (p # q # ps) = p @ ''.'' @ joinDot (q # ps)"

text \<open>\<open>strings.TrimSuffix(s, ".")\<close>.\<close>

definition trimSuffixDot :: "string \<Rightarrow> string" where
  "trimSuffixDot s = (if s \<noteq> [] \<and> last s = CHR ''.'' then butlast s else s)"

text \<open>\<open>strconv.Itoa\<close>.\<close>

fun natToDec :: "nat \<Rightarrow> string" where
  "natToDec n =
     (if n < 10 then [''0123456789'' ! n]
      else natToDec (n div 10) @ [''0123456789'' ! (n mod 10)])"

declare natToDec.simps [simp del]

definition Itoa :: "int \<Rightarrow> string" where
  "Itoa i = (if i < 0 then ''-'' @ natToDec (nat (- i)) else natToDec (nat i))"

text \<open>\<open>selToIdent\<close>: every \<open>]\<close> removed, then \<open>[\<close> and \<open>.\<close> mapped to \<open>_\<close>.\<close>

definition selToIdent :: "string \<Rightarrow> string" where
  "selToIdent sel =
     map (\<lambda>r. if r = CHR ''['' then CHR ''_'' else if r = CHR ''.'' then CHR ''_'' else r)
       (filter (\<lambda>r. r \<noteq> CHR '']'') sel)"

text \<open>\<open>importSanitizerRE.ReplaceAllString(path, "_")\<close> for the expression \<open>\W\<close>: every
  character other than an ASCII letter, a digit or \<open>_\<close> becomes \<open>_\<close> (import paths taken
  as ASCII).\<close>

definition wordChar :: "char \<Rightarrow> bool" where
  "wordChar c =
     (c \<in> set ''abcdefghijklmnopqrstuvwxyzABCDEFGHIJKLMNOPQRSTUVWXYZ0123456789_'')"

definition sanitize :: "string \<Rightarrow> string" where
  "sanitize path = map (\<lambda>c. if wordChar c then c else CHR ''_'') path"

text \<open>The verb \<open>%q\<close> (\<open>strconv.Quote\<close>) on text of printable ASCII: double quotes
  around it, with \<open>"\<close> and \<open>\\<close> escaped by a backslash.\<close>

definition goQuote :: "string \<Rightarrow> string" where
  "goQuote s =
     [CHR 0x22] @
     concat (map (\<lambda>c. if c = CHR 0x22 then [CHR 0x5C, c]
                        else if c = CHR 0x5C then [CHR 0x5C, c] else [c]) s) @
     [CHR 0x22]"

text \<open>\<open>strings.HasSuffix\<close>.\<close>

definition hasSuffix :: "string \<Rightarrow> string \<Rightarrow> bool" where
  "hasSuffix s suf = (length suf \<le> length s \<and> drop (length s - length suf) s = suf)"

section \<open>The import table and type strings\<close>

text \<open>\<open>g.imports\<close> is a Go map from alias to import path. It is kept as an association
  list with distinct keys; the order of the list has no meaning of its own, and where the
  code ranges over the map the order of the visit is a parameter (\<open>rangeOrder\<close> below).\<close>

type_synonym importTable = "(string \<times> string) list"

fun mapPut :: "string \<Rightarrow> string \<Rightarrow> importTable \<Rightarrow> importTable" where
  "mapPut k v [] = [(k, v)]"
| "mapPut k v ((k', v') # r) = (if k = k' then (k, v) # r else (k', v') # mapPut k v r)"

text \<open>The qualifier closure of \<open>getElemType\<close>: it names a package in the emitted text and
  records the import as a side effect.\<close>

definition qualifier :: "string \<Rightarrow> package \<Rightarrow> importTable \<Rightarrow> string \<times> importTable" where
  "qualifier x p imps =
     (let name = pkgName p in
      if name \<noteq> x then
        (let name' = (case map_of imps name of
                        None \<Rightarrow> name
                      | Some path \<Rightarrow> if path \<noteq> pkgPath p then sanitize (pkgPath p) else name)
         in (name', mapPut name' (pkgPath p) imps))
      else ('''', imps))"

text \<open>The nil qualifier of \<open>Type.String()\<close>: the full package path.\<close>

definition pathQualifier :: "package \<Rightarrow> importTable \<Rightarrow> string \<times> importTable" where
  "pathQualifier p imps = (pkgPath p, imps)"

text \<open>\<open>types.TypeString\<close> on the modelled universe, following the type writer of
  go/types: the qualifier is called once for every named type of another package, in the
  order the types are written, and its side effect on the import table is threaded
  through.\<close>

type_synonym qualifierFn = "package \<Rightarrow> importTable \<Rightarrow> string \<times> importTable"

fun seqJoin :: "string \<Rightarrow> (importTable \<Rightarrow> string \<times> importTable) list \<Rightarrow> importTable \<Rightarrow> string \<times> importTable" where
  "seqJoin sep [] imps = ([], imps)"
| "seqJoin sep [w] imps = w imps"
| "seqJoin sep (w # v # ws) imps =
     (let (a, imps1) = w imps;
          (b, imps2) = seqJoin sep (v # ws) imps1
      in (a @ sep @ b, imps2))"

primrec writeType :: "tenv \<Rightarrow> qualifierFn \<Rightarrow> gotype \<Rightarrow> importTable \<Rightarrow> string \<times> importTable"
and writeField :: "tenv \<Rightarrow> qualifierFn \<Rightarrow> field \<Rightarrow> importTable \<Rightarrow> string \<times> importTable"
and writeMethod :: "tenv \<Rightarrow> qualifierFn \<Rightarrow> gofunc \<Rightarrow> importTable \<Rightarrow> string \<times> importTable"
where
  "writeType env qf NoType = (\<lambda>imps. (''<nil>'', imps))"
| "writeType env qf (Basic n) = (\<lambda>imps. (n, imps))"
| "writeType env qf (Named i) = (\<lambda>imps.
     (case objPkg (env i) of
        None \<Rightarrow> (objName (env i), imps)
      | Some p \<Rightarrow>
          (let (s, imps1) = qf p imps
           in ((if s \<noteq> [] then s @ ''.'' else []) @ objName (env i), imps1))))"
| "writeType env qf (Pointer t) = (\<lambda>imps.
     (let (s, imps1) = writeType env qf t imps in (''*'' @ s, imps1)))"
| "writeType env qf (Slice t) = (\<lambda>imps.
     (let (s, imps1) = writeType env qf t imps in (''[]'' @ s, imps1)))"
| "writeType env qf (Array n t) = (\<lambda>imps.
     (let (s, imps1) = writeType env qf t imps in (''['' @ natToDec n @ '']'' @ s, imps1)))"
| "writeType env qf (Map k v) = (\<lambda>imps.
     (let (ks, imps1) = writeType env qf k imps;
          (vs, imps2) = writeType env qf v imps1
      in (''map['' @ ks @ '']'' @ vs, imps2)))"
| "writeType env qf (Chan d t) = (\<lambda>imps.
     (let (s, imps1) = writeType env qf t imps
      in (case d of
            SendRecv \<Rightarrow>
              (case t of
                 Chan RecvOnly t' \<Rightarrow> (''chan ('' @ s @ '')'', imps1)
               | _ \<Rightarrow> (''chan '' @ s, imps1))
          | SendOnly \<Rightarrow> (''chan<- '' @ s, imps1)
          | RecvOnly \<Rightarrow> (''<-chan '' @ s, imps1))))"
| "writeType env qf (Struct fs) = (\<lambda>imps.
     (let (s, imps1) = seqJoin ''; '' (map (writeField env qf) fs) imps
      in (''struct{'' @ s @ ''}'', imps1)))"
| "writeType env qf (Interface ms) = (\<lambda>imps.
     (let (s, imps1) = seqJoin ''; '' (map (writeMethod env qf) ms) imps
      in (''interface{'' @ s @ ''}'', imps1)))"
| "writeField env qf (Field n t ex em tag) = (\<lambda>imps.
     (let (s, imps1) = writeType env qf t imps
      in ((if em then [] else n @ '' '') @ s @
          (if tag \<noteq> [] then '' '' @ goQuote tag else []), imps1)))"
| "writeMethod env qf (Func n ps rs rcv) = (\<lambda>imps.
     (let (p, imps1) = seqJoin '', '' (map (writeType env qf) ps) imps;
          (r, imps2) = seqJoin '', '' (map (writeType env qf) rs) imps1
      in (n @ ''('' @ p @ '')'' @
          (if rs = [] then [] else if length rs = 1 then '' '' @ r else '' ('' @ r @ '')''),
          imps2)))"

text \<open>\<open>getElemType\<close>: the type's text with the generator's qualifier; \<open>g.imports\<close> is
  the table passed in and returned.\<close>

definition getElemType :: "tenv \<Rightarrow> gotype \<Rightarrow> string \<Rightarrow> importTable \<Rightarrow> string \<times> importTable" where
  "getElemType env t x imps = writeType env (qualifier x) t imps"

text \<open>\<open>String()\<close> of a type, as the verb \<open>%s\<close> calls it.\<close>

definition typeString :: "tenv \<Rightarrow> gotype \<Rightarrow> string" where
  "typeString env t = fst (writeType env pathQualifier t [])"

section \<open>The walker\<close>

text \<open>
  \<open>walkType\<close> returns nothing; it writes Go text to \<open>w\<close>, adds to \<open>g.imports\<close> (a map,
  shared by every copy of the generator) and logs. Here a walk returns the text it
  wrote, with the import table and the log threaded through as state. A run-time panic
  is the value \<open>Inl (Panic _)\<close>. The recursion follows the type graph, which may be
  cyclic, so the walk takes fuel: one unit per call of \<open>walkType\<close>, \<open>None\<close> when it runs
  out. \<open>depth\<close> is a Go \<open>int\<close>, taken here as an unbounded integer.
\<close>

record wstate =
  importTab :: importTable
  logs :: "string list"

type_synonym walkResult = "(failure + string \<times> wstate) option"

type_synonym walker = "string \<Rightarrow> string \<Rightarrow> gotype \<Rightarrow> wstate \<Rightarrow> walkResult"

definition bindW :: "walkResult \<Rightarrow> (string \<Rightarrow> wstate \<Rightarrow> walkResult) \<Rightarrow> walkResult" where
  "bindW r f =
     (case r of
        None \<Rightarrow> None
      | Some (Inl e) \<Rightarrow> Some (Inl e)
      | Some (Inr (t, st)) \<Rightarrow> f t st)"

text \<open>\<open>reuseDeepCopy\<close>: whether a method is reused, and the text written if so.\<close>

definition reuseDeepCopy ::
  "generator \<Rightarrow> string \<Rightarrow> string \<Rightarrow> gotype \<Rightarrow> gofunc list \<Rightarrow> bool \<Rightarrow> gotype list \<Rightarrow> bool \<times> string" where
  "reuseDeepCopy g source sink v ms pointer generating =
     (let (hasMethod, isPointer) = hasDeepCopy g v ms generating in
      if hasMethod then
        (if pointer = isPointer then
           (hasMethod, sink @ '' = '' @ source @ ''.'' @ methodName g @ ''()'' @ NL)
         else if pointer then
           (hasMethod, ''retV := '' @ source @ ''.'' @ methodName g @ ''()'' @ NL @
                       TAB @ sink @ '' = &retV'' @ NL)
         else
           (hasMethod, ''{'' @ NL @
                       TAB @ ''retV := '' @ source @ ''.'' @ methodName g @ ''()'' @ NL @
                       TAB @ sink @ '' = *retV'' @ NL @
                       ''}'' @ NL))
      else (hasMethod, []))"

text \<open>The depth cutoff of \<open>walkType\<close>, entered when \<open>g.maxDepth > 0\<close> and
  \<open>depth >= g.maxDepth\<close>. \<open>generating[0]\<close> panics on an empty slice, and the slice
  expression \<open>p[1:len(p)-1]\<close> panics when \<open>p\<close> has one element, that is when \<open>sink\<close> has
  no dot. The log line is kept without the time stamp \<open>log.Printf\<close> puts before it.\<close>

definition cutoff :: "tenv \<Rightarrow> gotype list \<Rightarrow> int \<Rightarrow> string \<Rightarrow> wstate \<Rightarrow> walkResult" where
  "cutoff env generating depth sink st =
     (let p = splitDot sink in
      case generating of
        [] \<Rightarrow> Some (Inl (Panic ''index out of range [0] with length 0''))
      | t0 # ts \<Rightarrow>
          if length p < 2 then Some (Inl (Panic ''slice bounds out of range [1:0]''))
          else
            (let stoppedAt =
                   trimSuffixDot (typeString env t0 @ ''.'' @ joinDot (butlast (tl p)))
             in Some (Inr ([], st\<lparr>logs := logs st @
                  [''WARNING: reached max depth '' @ Itoa depth @
                   ''. stop recursion at '' @ stoppedAt]\<rparr>))))"

definition cutoffTaken :: "generator \<Rightarrow> int \<Rightarrow> bool" where
  "cutoffTaken g depth = (if maxDepth g > 0 then (if depth \<ge> maxDepth g then True else False) else False)"

definition needExported :: "tenv \<Rightarrow> string \<Rightarrow> gotype \<Rightarrow> bool" where
  "needExported env x m =
     (case m of
        Named i \<Rightarrow> (case objPkg (env i) of None \<Rightarrow> False | Some p \<Rightarrow> pkgName p \<noteq> x)
      | _ \<Rightarrow> False)"

text \<open>The loop over the fields of a struct; \<open>w\<close> is the recursive call of \<open>walkType\<close>
  with \<open>x\<close>, \<open>skips\<close>, \<open>generating\<close> and the incremented \<open>depth\<close> fixed.\<close>

fun walkFields :: "walker \<Rightarrow> bool \<Rightarrow> skips \<Rightarrow> string \<Rightarrow> string \<Rightarrow> field list \<Rightarrow> wstate \<Rightarrow> walkResult" where
  "walkFields w needExp skips source sink [] st = Some (Inr ([], st))"
| "walkFields w needExp skips source sink (f # fs) st =
     (if needExp \<and> \<not> fieldExported f then walkFields w needExp skips source sink fs st
      else
        (let fname = fieldName f;
             sel = afterFirstDot (sink @ ''.'' @ fname)
         in if sel \<in> skips then walkFields w needExp skips source sink fs st
            else bindW (w (source @ ''.'' @ fname) (sink @ ''.'' @ fname) (fieldType f) st)
                   (\<lambda>t1 st1. bindW (walkFields w needExp skips source sink fs st1)
                      (\<lambda>t2 st2. Some (Inr (t1 @ t2, st2))))))"

definition walkSlice ::
  "walker \<Rightarrow> tenv \<Rightarrow> string \<Rightarrow> skips \<Rightarrow> int \<Rightarrow> bool \<Rightarrow> string \<Rightarrow> string \<Rightarrow> gotype \<Rightarrow> wstate \<Rightarrow> walkResult" where
  "walkSlice w env x skips depth initial source sink elem st =
     (let (kind, imps1) = getElemType env elem x (importTab st);
          st1 = st\<lparr>importTab := imps1\<rparr>;
          idx = ''i'' @ (if depth > 1 then Itoa depth else []);
          sel0 = afterFirstDot ''[i]'';
          sel = (if \<not> initial then sink @ sel0 else sel0);
          skipSlice = skips_Contains skips sel;
          head = ''if '' @ source @ '' != nil {'' @ NL @
                 TAB @ sink @ '' = make([]'' @ kind @ '', len('' @ source @ ''))'' @ NL @
                 ''copy('' @ sink @ '', '' @ source @ '')'' @ NL;
          baseSel = ''['' @ idx @ '']''
      in bindW (if \<not> skipSlice then w (source @ baseSel) (sink @ baseSel) elem st1
                else Some (Inr ([], st1)))
           (\<lambda>b st2. Some (Inr (head @
              (if b \<noteq> [] then ''    for '' @ idx @ '' := range '' @ source @ '' {'' @ NL @
                                b @ ''}'' @ NL
               else []) @
              ''}'' @ NL, st2))))"

definition walkPointer ::
  "walker \<Rightarrow> generator \<Rightarrow> tenv \<Rightarrow> string \<Rightarrow> gotype list \<Rightarrow> bool \<Rightarrow> string \<Rightarrow> string \<Rightarrow> gotype \<Rightarrow> wstate \<Rightarrow> walkResult" where
  "walkPointer w g env x generating initial source sink elem st =
     (let head = ''if '' @ source @ '' != nil {'' @ NL;
          reused = (case methoder env elem of
                      None \<Rightarrow> (False, [])
                    | Some ms \<Rightarrow>
                        if initial then (False, [])
                        else reuseDeepCopy g source sink elem ms True generating)
      in if fst reused then Some (Inr (head @ snd reused @ ''}'' @ NL, st))
         else
           (let (kind, imps1) = getElemType env elem x (importTab st);
                st1 = st\<lparr>importTab := imps1\<rparr>
            in bindW (w source sink elem st1)
                 (\<lambda>b st2. Some (Inr (head @
                    sink @ '' = new('' @ kind @ '')'' @ NL @
                    TAB @ ''*'' @ sink @ '' = *'' @ source @ NL @
                    b @ ''}'' @ NL, st2)))))"

definition walkChan ::
  "tenv \<Rightarrow> string \<Rightarrow> string \<Rightarrow> string \<Rightarrow> gotype \<Rightarrow> wstate \<Rightarrow> walkResult" where
  "walkChan env x source sink elem st =
     (let (kind, imps1) = getElemType env elem x (importTab st)
      in Some (Inr (''if '' @ source @ '' != nil {'' @ NL @
                    TAB @ sink @ '' = make(chan '' @ kind @ '', cap('' @ source @ ''))'' @ NL @
                    ''}'' @ NL, st\<lparr>importTab := imps1\<rparr>)))"

text \<open>The map case. One lookup of \<open>sel\<close> sets both \<open>skipKey\<close> and \<open>skipValue\<close>.\<close>

definition mapSel :: "bool \<Rightarrow> string \<Rightarrow> string" where
  "mapSel initial sink = afterFirstDot (if \<not> initial then sink @ ''[k]'' else ''[k]'')"

definition mapSkips :: "skips \<Rightarrow> string \<Rightarrow> bool \<times> bool" where
  "mapSkips skips sel = (if skips_Contains skips sel then (True, True) else (False, False))"

definition mapHead :: "string \<Rightarrow> string \<Rightarrow> string \<Rightarrow> string \<Rightarrow> string \<Rightarrow> string \<Rightarrow> string" where
  "mapHead source sink kkind vkind key val =
     ''if '' @ source @ '' != nil {'' @ NL @
     TAB @ sink @ '' = make(map['' @ kkind @ '']'' @ vkind @ '', len('' @ source @ ''))'' @ NL @
     TAB @ ''for '' @ key @ '', '' @ val @ '' := range '' @ source @ '' {'' @ NL"

definition mapInsert :: "string \<Rightarrow> string \<Rightarrow> string \<Rightarrow> string" where
  "mapInsert sink ksink vsink = sink @ ''['' @ ksink @ ''] = '' @ vsink @ ''}'' @ NL @ ''}'' @ NL"

definition walkMap ::
  "walker \<Rightarrow> tenv \<Rightarrow> string \<Rightarrow> skips \<Rightarrow> int \<Rightarrow> bool \<Rightarrow> string \<Rightarrow> string \<Rightarrow> gotype \<Rightarrow> gotype \<Rightarrow> wstate \<Rightarrow> walkResult" where
  "walkMap w env x skips depth initial source sink keyT elemT st =
     (let (kkind, imps1) = getElemType env keyT x (importTab st);
          (vkind, imps2) = getElemType env elemT x imps1;
          st2 = st\<lparr>importTab := imps2\<rparr>;
          key = ''k'' @ (if depth > 1 then Itoa depth else []);
          val = ''v'' @ (if depth > 1 then Itoa depth else []);
          (skipKey, skipValue) = mapSkips skips (mapSel initial sink);
          copyKSink = selToIdent sink @ ''_'' @ key;
          copyVSink = selToIdent sink @ ''_'' @ val
      in bindW (if \<not> skipKey then w key copyKSink keyT st2 else Some (Inr ([], st2)))
           (\<lambda>bk st3.
              bindW (if \<not> skipValue then w val copyVSink elemT st3 else Some (Inr ([], st3)))
                (\<lambda>bv st4. Some (Inr (
                   mapHead source sink kkind vkind key val @
                   (if bk \<noteq> [] then ''var '' @ copyKSink @ '' '' @ kkind @ NL @ bk else []) @
                   (if bv \<noteq> [] then ''var '' @ copyVSink @ '' '' @ vkind @ NL @ bv else []) @
                   mapInsert sink (if bk \<noteq> [] then copyKSink else key)
                                  (if bv \<noteq> [] then copyVSink else val), st4)))))"

text \<open>The switch on \<open>m.Underlying()\<close>; \<open>depth\<close> is already incremented.\<close>

definition walkUnder ::
  "walker \<Rightarrow> generator \<Rightarrow> tenv \<Rightarrow> string \<Rightarrow> skips \<Rightarrow> gotype list \<Rightarrow> int \<Rightarrow> bool \<Rightarrow> bool \<Rightarrow> string \<Rightarrow> string \<Rightarrow> gotype \<Rightarrow> wstate \<Rightarrow> walkResult" where
  "walkUnder w g env x skips generating depth initial needExp source sink und st =
     (case und of
        Struct fs \<Rightarrow> walkFields w needExp skips source sink fs st
      | Slice e \<Rightarrow> walkSlice w env x skips depth initial source sink e st
      | Pointer e \<Rightarrow> walkPointer w g env x generating initial source sink e st
      | Chan d e \<Rightarrow> walkChan env x source sink e st
      | Map k e \<Rightarrow> walkMap w env x skips depth initial source sink k e st
      | _ \<Rightarrow> Some (Inr ([], st)))"

text \<open>The reuse check at the head of \<open>walkType\<close>: \<open>ok && !initial && g.reuseDeepCopy(...)\<close>.\<close>

definition reuseCheck ::
  "generator \<Rightarrow> tenv \<Rightarrow> bool \<Rightarrow> string \<Rightarrow> string \<Rightarrow> gotype \<Rightarrow> gotype list \<Rightarrow> bool \<times> string" where
  "reuseCheck g env initial source sink m generating =
     (case methoder env m of
        None \<Rightarrow> (False, [])
      | Some ms \<Rightarrow>
          if initial then (False, [])
          else reuseDeepCopy g source sink m ms False generating)"

fun walkType ::
  "nat \<Rightarrow> generator \<Rightarrow> tenv \<Rightarrow> string \<Rightarrow> skips \<Rightarrow> gotype list \<Rightarrow> int \<Rightarrow> string \<Rightarrow> string \<Rightarrow> gotype \<Rightarrow> wstate \<Rightarrow> walkResult" where
  "walkType 0 g env x skips generating depth source sink m st = None"
| "walkType (Suc n) g env x skips generating depth source sink m st =
     (if m = NoType then Some (Inr ([], st))
      else if cutoffTaken g depth then cutoff env generating depth sink st
      else
        (let initial = (depth = 0);
             reused = reuseCheck g env initial source sink m generating
         in if fst reused then Some (Inr (snd reused, st))
            else walkUnder
                   (\<lambda>src snk t s. walkType n g env x skips generating (depth + 1) src snk t s)
                   g env x skips generating (depth + 1) initial (needExported env x m)
                   source sink (Underlying env m) st))"

section \<open>Receiver names\<close>

text \<open>The part of the syntax trees \<open>getReceiverNames\<close> looks at: the comments of a file
  and, for every function declaration, the receiver's field list.\<close>

datatype astExpr = Ident string | StarExpr astExpr | OtherExpr

datatype astField = AstField (astNames: "string list") (astType: astExpr)

datatype astDecl = FuncDecl (funcRecv: "astField list option") | OtherDecl

record astFile =
  comments :: "string list list"
  decls :: "astDecl list"

text \<open>\<open>patAutoGen\<close>, the expression \<open>^// Code generated .* DO NOT EDIT\.$\<close>: the text
  begins and ends with the two fixed parts, which do not overlap, and has no line break
  between them.\<close>

definition patAutoGen :: "string \<Rightarrow> bool" where
  "patAutoGen t =
     (let pre = ''// Code generated ''; suf = '' DO NOT EDIT.'' in
      length pre + length suf \<le> length t \<and>
      take (length pre) t = pre \<and>
      drop (length t - length suf) t = suf \<and>
      CHR 0x0A \<notin> set (take (length t - length pre - length suf) (drop (length pre) t)))"

definition isCodeGenerated :: "astFile \<Rightarrow> bool" where
  "isCodeGenerated f = list_ex (\<lambda>c. list_ex patAutoGen c) (comments f)"

text \<open>\<open>recvVarVisitor.add\<close>: the first name found for a type is kept.\<close>

definition addRecv :: "string \<Rightarrow> string \<Rightarrow> (string \<times> string) list \<Rightarrow> (string \<times> string) list" where
  "addRecv key name vars = (case map_of vars key of None \<Rightarrow> vars @ [(key, name)] | Some n \<Rightarrow> vars)"

text \<open>\<open>Visit\<close> at a function declaration. \<open>recv.List[0]\<close> and \<open>fld.Names[0]\<close> panic
  on an empty list; a receiver without a name, as in \<open>func (T) M()\<close>, has no names.\<close>

definition visitFuncDecl :: "astDecl \<Rightarrow> (string \<times> string) list \<Rightarrow> failure + (string \<times> string) list" where
  "visitFuncDecl d vars =
     (case d of
        OtherDecl \<Rightarrow> Inr vars
      | FuncDecl None \<Rightarrow> Inr vars
      | FuncDecl (Some []) \<Rightarrow> Inl (Panic ''index out of range [0] with length 0'')
      | FuncDecl (Some (fld # flds)) \<Rightarrow>
          (case (case astType fld of StarExpr e \<Rightarrow> e | e \<Rightarrow> e) of
             Ident typ \<Rightarrow>
               (case astNames fld of
                  [] \<Rightarrow> Inl (Panic ''index out of range [0] with length 0'')
                | varName # ns \<Rightarrow> Inr (addRecv typ varName vars))
           | _ \<Rightarrow> Inr vars))"

fun visitDecls :: "astDecl list \<Rightarrow> (string \<times> string) list \<Rightarrow> failure + (string \<times> string) list" where
  "visitDecls [] vars = Inr vars"
| "visitDecls (d # ds) vars =
     (case visitFuncDecl d vars of Inl e \<Rightarrow> Inl e | Inr vars1 \<Rightarrow> visitDecls ds vars1)"

text \<open>\<open>ast.Walk\<close> over the files: a generated file is not entered.\<close>

fun visitFiles :: "astFile list \<Rightarrow> (string \<times> string) list \<Rightarrow> failure + (string \<times> string) list" where
  "visitFiles [] vars = Inr vars"
| "visitFiles (f # fs) vars =
     (if isCodeGenerated f then visitFiles fs vars
      else (case visitDecls (decls f) vars of Inl e \<Rightarrow> Inl e | Inr vars1 \<Rightarrow> visitFiles fs vars1))"

text \<open>\<open>getReceiverNames\<close>; a nil and an empty \<open>pkg.Syntax\<close> are both the empty list.\<close>

definition getReceiverNames :: "astFile list \<Rightarrow> failure + (string \<times> string) list" where
  "getReceiverNames syn =
     (if syn = [] then Inl (Error ''packages.Package has no Syntax.'')
      else visitFiles syn [])"

section \<open>Locating the requested types\<close>

text \<open>A package as \<open>Generate\<close> reads it: its name, its syntax trees, and the objects of
  \<open>TypesInfo.Defs\<close>, each given by its type (\<open>None\<close> for a nil object). \<open>Defs\<close> is a Go
  map and \<open>locateType\<close> ranges over it; the list is the order in which one run of the
  program visits the entries, which Go leaves unspecified.\<close>

record gopackage =
  pName :: string
  pSyntax :: "astFile list"
  pDefs :: "gotype option list"

definition objFromType :: "gotype \<Rightarrow> gotype option" where
  "objFromType typ = (case fst (reducePointer typ) of Named i \<Rightarrow> Some (Named i) | _ \<Rightarrow> None)"

definition exprFilter :: "tenv \<Rightarrow> gotype \<Rightarrow> string \<Rightarrow> string \<Rightarrow> gotype option" where
  "exprFilter env t sel x =
     (case objFromType t of
        Some (Named i) \<Rightarrow>
          (case objPkg (env i) of
             None \<Rightarrow> None
           | Some pk \<Rightarrow>
               if x \<noteq> pkgName pk then None
               else if sel \<noteq> objName (env i) then None
               else Some (Named i))
      | _ \<Rightarrow> None)"

fun locateIn :: "tenv \<Rightarrow> string \<Rightarrow> string \<Rightarrow> gotype option list \<Rightarrow> gotype option" where
  "locateIn env kind x [] = None"
| "locateIn env kind x (None # ds) = locateIn env kind x ds"
| "locateIn env kind x (Some t # ds) =
     (case exprFilter env t kind x of
        None \<Rightarrow> locateIn env kind x ds
      | Some m \<Rightarrow> Some m)"

definition locateType :: "tenv \<Rightarrow> string \<Rightarrow> gopackage \<Rightarrow> failure + gotype" where
  "locateType env kind p =
     (case locateIn env kind (pName p) (pDefs p) of
        None \<Rightarrow> Inl (Error ''type not found'')
      | Some m \<Rightarrow> Inr m)"

text \<open>The first loop of \<open>Generate\<close>.\<close>

fun locateAll :: "tenv \<Rightarrow> string list \<Rightarrow> gopackage \<Rightarrow> failure + gotype list" where
  "locateAll env [] p = Inr []"
| "locateAll env (kind # kinds) p =
     (case locateType env kind p of
        Inl (Error err) \<Rightarrow>
          Inl (Error (''locating type '' @ goQuote kind @ '' in '' @ goQuote (pName p) @
                      '': '' @ err))
      | Inl f \<Rightarrow> Inl f
      | Inr obj \<Rightarrow> (case locateAll env kinds p of Inl e \<Rightarrow> Inl e | Inr objs \<Rightarrow> Inr (obj # objs)))"

section \<open>Generating the functions and the file\<close>

text \<open>\<open>obj.Obj().Name()\<close>; an \<open>object\<close> is always a named type.\<close>

definition objNameOf :: "tenv \<Rightarrow> gotype \<Rightarrow> string" where
  "objNameOf env obj = (case obj of Named i \<Rightarrow> objName (env i) | _ \<Rightarrow> [])"

text \<open>\<open>generateFunc\<close>. Its error result is always nil, so only the walk can fail. What
  it prints on standard output is left out.\<close>

definition generateFunc ::
  "nat \<Rightarrow> generator \<Rightarrow> tenv \<Rightarrow> (string \<times> string) list \<Rightarrow> string \<Rightarrow> gotype \<Rightarrow> skips \<Rightarrow> gotype list \<Rightarrow> wstate \<Rightarrow> walkResult" where
  "generateFunc fuel g env receiverNames pname obj skips generating st =
     (let ptr = (if isPtrRecv g then ''*'' else []);
          kind = objNameOf env obj;
          source = (case map_of receiverNames kind of
                      None \<Rightarrow> ''o''
                    | Some n \<Rightarrow> if n \<noteq> [] then n else ''o'');
          head = ''// '' @ methodName g @ '' generates a deep copy of '' @ ptr @ kind @ NL @
                 ''func ('' @ source @ '' '' @ ptr @ kind @ '') '' @ methodName g @ ''() '' @
                   ptr @ kind @ '' {'' @ NL @
                 TAB @ ''var cp '' @ kind @ '' = '' @ ptr @ source @ NL
      in bindW (walkType fuel g env pname skips generating 0 source ''cp'' obj st)
           (\<lambda>body st1. Some (Inr (head @ body @
              (if isPtrRecv g then ''return &cp'' @ NL @ ''}'' else ''return cp'' @ NL @ ''}''),
              st1))))"

text \<open>The second loop of \<open>Generate\<close>: the functions in request order, \<open>i\<close> the index of
  the loop. The result is \<open>g.fns\<close> and the state after the last walk.\<close>

fun generateFuncs ::
  "nat \<Rightarrow> generator \<Rightarrow> tenv \<Rightarrow> (string \<times> string) list \<Rightarrow> string \<Rightarrow> gotype list \<Rightarrow> nat \<Rightarrow> gotype list \<Rightarrow> wstate \<Rightarrow> (failure + string list \<times> wstate) option" where
  "generateFuncs fuel g env receiverNames pname generating i [] st = Some (Inr ([], st))"
| "generateFuncs fuel g env receiverNames pname generating i (obj # objs) st =
     (case SkipLists_Get (skipLists g) (int i) of
        Inl f \<Rightarrow> Some (Inl f)
      | Inr sk \<Rightarrow>
          (case generateFunc fuel g env receiverNames pname obj sk generating st of
             None \<Rightarrow> None
           | Some (Inl f) \<Rightarrow> Some (Inl f)
           | Some (Inr (fn, st1)) \<Rightarrow>
               (case generateFuncs fuel g env receiverNames pname generating (Suc i) objs st1 of
                  None \<Rightarrow> None
                | Some (Inl f) \<Rightarrow> Some (Inl f)
                | Some (Inr (fns, st2)) \<Rightarrow> Some (Inr (fn # fns, st2)))))"

text \<open>The text \<open>generateFile\<close> hands to the formatter: the header with the command line
  \<open>os.Args\<close>, the import block when there are imports, with one line for every entry in
  the order the \<open>range\<close> over the map visits them, and the functions.\<close>

fun joinSpace :: "string list \<Rightarrow> string" where
  "joinSpace [] = []"
| "joinSpace [p] = p"
| "joinSpace (p # q # ps) = p @ '' '' @ joinSpace (q # ps)"

definition importLine :: "string \<times> string \<Rightarrow> string" where
  "importLine e =
     (if hasSuffix (snd e) (fst e) then goQuote (snd e) @ NL
      else fst e @ '' '' @ goQuote (snd e) @ NL)"

definition fileText :: "string list \<Rightarrow> string \<Rightarrow> (string \<times> string) list \<Rightarrow> string list \<Rightarrow> string" where
  "fileText args pname entries fns =
     ''// Code generated by '' @ joinSpace args @ ''; DO NOT EDIT.'' @ NL @ NL @
       ''package '' @ pname @ NL @ NL @
     (if length entries > 0
      then ''import ('' @ NL @ concat (map importLine entries) @ '')'' @ NL
      else []) @
     concat (map (\<lambda>fn. fn @ NL @ NL) fns)"

text \<open>The surroundings of one run: the command line, the order in which the run ranges
  over the import map, the formatter \<open>format.Source\<close> (\<open>Inl\<close> its error text) and the
  destination's \<open>Write\<close> (the destination after the call, and the error text if any).\<close>

record 'w surroundings =
  osArgs :: "string list"
  rangeOrder :: "importTable \<Rightarrow> importTable"
  formatSource :: "string \<Rightarrow> string + string"
  writeTo :: "'w \<Rightarrow> string \<Rightarrow> 'w \<times> string option"

definition generateFile ::
  "'w surroundings \<Rightarrow> string \<Rightarrow> importTable \<Rightarrow> string list \<Rightarrow> 'w \<Rightarrow> (failure + unit) \<times> 'w" where
  "generateFile sur pname imps fns w =
     (let file = fileText (osArgs sur) pname (rangeOrder sur imps) fns in
      case formatSource sur file of
        Inl err \<Rightarrow>
          (Inl (Error (''error formatting source: '' @ err @ NL @ ''source:'' @ NL @ file)), w)
      | Inr b \<Rightarrow>
          (case writeTo sur w b of
             (w1, None) \<Rightarrow> (Inr (), w1)
           | (w1, Some err) \<Rightarrow> (Inl (Error err), w1)))"

text \<open>\<open>Generate\<close>, on a generator as \<open>NewGenerator\<close> leaves it (no import, no function).
  The result is the error returned (or the panic) and the destination after the run;
  \<open>None\<close> when a walk ran out of fuel.\<close>

definition wrapError :: "string \<Rightarrow> failure \<Rightarrow> failure" where
  "wrapError pre f = (case f of Error msg \<Rightarrow> Error (pre @ msg) | Panic msg \<Rightarrow> Panic msg)"

definition Generate ::
  "nat \<Rightarrow> generator \<Rightarrow> tenv \<Rightarrow> 'w surroundings \<Rightarrow> 'w \<Rightarrow> string list \<Rightarrow> gopackage \<Rightarrow> ((failure + unit) \<times> 'w) option" where
  "Generate fuel g env sur w types p =
     (case locateAll env types p of
        Inl f \<Rightarrow> Some (Inl f, w)
      | Inr objs \<Rightarrow>
          (case getReceiverNames (pSyntax p) of
             Inl f \<Rightarrow> Some (Inl (wrapError ''getting receiver names: '' f), w)
           | Inr receiverNames \<Rightarrow>
               (case generateFuncs fuel g env receiverNames (pName p) objs 0 objs
                       \<lparr>importTab = [], logs = []\<rparr> of
                  None \<Rightarrow> None
                | Some (Inl f) \<Rightarrow> Some (Inl (wrapError ''generating method: '' f), w)
                | Some (Inr (fns, st)) \<Rightarrow>
                    (case generateFile sur (pName p) (importTab st) fns w of
                       (Inl f, w1) \<Rightarrow> Some (Inl (wrapError ''generating file content: '' f), w1)
                     | (Inr u, w1) \<Rightarrow> Some (Inr (), w1)))))"

section \<open>Two runs on the same input\<close>

text \<open>Two runs of the program on the same input can differ in the order in which they
  range over Go maps: \<open>TypesInfo.Defs\<close> in \<open>locateType\<close> and \<open>g.imports\<close> in
  \<open>generateFile\<close>.\<close>






section \<open>The detector as the specification words it\<close>

text \<open>A second detector, written from the specification and not from the code, to compare
  with \<open>hasDeepCopy\<close>: the result and the receiver are stripped of at most one pointer
  indirection, and a method of the configured name whose signature does not match is
  passed over.\<close>

fun stripPointer_spec :: "gotype \<Rightarrow> gotype \<times> bool" where
  "stripPointer_spec (Pointer t) = (t, True)"
| "stripPointer_spec t = (t, False)"

fun scanMethods_spec :: "string \<Rightarrow> gofunc list \<Rightarrow> bool \<times> bool" where
  "scanMethods_spec name [] = (False, False)"
| "scanMethods_spec name (m # ms) =
     (if funcName m = name \<and> length (sigParams m) = 0 \<and> length (sigResults m) = 1 \<and>
         fst (stripPointer_spec (hd (sigResults m))) = fst (stripPointer_spec (sigRecv m))
      then (True, snd (stripPointer_spec (hd (sigResults m))))
      else scanMethods_spec name ms)"

definition hasDeepCopy_spec :: "generator \<Rightarrow> gotype \<Rightarrow> gofunc list \<Rightarrow> gotype list \<Rightarrow> bool \<times> bool" where
  "hasDeepCopy_spec g v ms generating =
     (if inGenerating v generating then (True, isPtrRecv g)
      else scanMethods_spec (methodName g) ms)"

section \<open>Example inputs\<close>

definition exPkg :: package where
  "exPkg = Package ''p'' ''example.com/p''"

definition exDecl :: "string \<Rightarrow> gofunc list \<Rightarrow> gotype \<Rightarrow> namedDecl" where
  "exDecl n ms u = \<lparr>objPkg = Some exPkg, objName = n, methods = ms, underlying = u\<rparr>"

definition exGen :: "int \<Rightarrow> generator" where
  "exGen d = \<lparr>isPtrRecv = False, maxDepth = d, methodName = ''DeepCopy'', skipLists = []\<rparr>"

definition exState :: wstate where
  "exState = \<lparr>importTab = [], logs = []\<rparr>"

text \<open>\<open>type T []int\<close>.\<close>

definition envSlice :: tenv where
  "envSlice = (\<lambda>i. exDecl ''T'' [] (Slice (Basic ''int'')))"

text \<open>\<open>type T struct { M map[string][]int }\<close>.\<close>

definition envMap :: tenv where
  "envMap = (\<lambda>i. exDecl ''T'' []
     (Struct [Field ''M'' (Map (Basic ''string'') (Slice (Basic ''int''))) True False []]))"

text \<open>\<open>type U struct{}\<close> with \<open>func (u U) DeepCopy() []U\<close>.\<close>

definition envSliceMethod :: tenv where
  "envSliceMethod = (\<lambda>i. exDecl ''U'' [Func ''DeepCopy'' [] [Slice (Named 0)] (Named 0)] (Struct []))"

text \<open>\<open>type T struct { next *U }\<close> and \<open>type U struct { next *U }\<close>: a cyclic type
  graph; with only \<open>T\<close> requested nothing but the depth limit ends the walk.\<close>

definition envCyclic :: tenv where
  "envCyclic = (\<lambda>i. if i = 0
      then exDecl ''T'' [] (Struct [Field ''next'' (Pointer (Named 1)) False False []])
      else exDecl ''U'' [] (Struct [Field ''next'' (Pointer (Named 1)) False False []]))"

text \<open>\<open>type T struct { A U; P *U }\<close> and \<open>type U struct{}\<close> with
  \<open>func (u U) DeepCopy() U\<close>.\<close>

definition envReuse :: tenv where
  "envReuse = (\<lambda>i. if i = 0
      then exDecl ''T'' [] (Struct [Field ''A'' (Named 1) True False [],
                                    Field ''P'' (Pointer (Named 1)) True False []])
      else exDecl ''U'' [Func ''DeepCopy'' [] [Named 1] (Named 1)] (Struct []))"


text \<open>\<open>type T struct{}\<close>.\<close>

definition envEmpty :: tenv where
  "envEmpty = (\<lambda>i. exDecl ''T'' [] (Struct []))"

text \<open>A package \<open>p\<close> with one file that declares \<open>func (t *T) M()\<close>; among its
  definitions are a nil object, a variable of type \<open>*T\<close> and the type \<open>T\<close>.\<close>

definition exFile :: astFile where
  "exFile = \<lparr>comments = [[''// Package p.'']],
             decls = [OtherDecl, FuncDecl (Some [AstField [''t''] (StarExpr (Ident ''T''))])]\<rparr>"

definition exPackage :: gopackage where
  "exPackage = \<lparr>pName = ''p'', pSyntax = [exFile],
                 pDefs = [None, Some (Pointer (Named 0)), Some (Named 0)]\<rparr>"

text \<open>Two formatters, one that takes the text as it is and one that rejects it; a
  destination that keeps what is written to it, with earlier content in front.\<close>

definition acceptSource :: "string \<Rightarrow> string + string" where
  "acceptSource src = Inr src"

definition rejectSource :: "string \<Rightarrow> string + string" where
  "rejectSource src = Inl ''1:1: expected declaration''"

definition exSur :: "(string \<Rightarrow> string + string) \<Rightarrow> (string list) surroundings" where
  "exSur fmt = \<lparr>osArgs = [''deep-copy'', ''T''], rangeOrder = (\<lambda>m. m), formatSource = fmt,
                 writeTo = (\<lambda>w b. (w @ [b], None))\<rparr>"

text \<open>The function generated for the empty struct \<open>T\<close> with receiver name \<open>t\<close>.\<close>

definition exFunc :: string where
  "exFunc = ''// DeepCopy generates a deep copy of T'' @ NL @
            ''func (t T) DeepCopy() T {'' @ NL @
            TAB @ ''var cp T = t'' @ NL @
            ''return cp'' @ NL @ ''}''"




section \<open>Theorems\<close>

subsection \<open>Helper lemmas\<close>

lemma bindW_simps [simp]:
  "bindW None f = None"
  "bindW (Some (Inl e)) f = Some (Inl e)"
  "bindW (Some (Inr (t, st))) f = f t st"
  by (simp_all add: bindW_def)

lemma bindW_None_iff:
  "(bindW r f = None) = (r = None \<or> (\<exists>t s. r = Some (Inr (t, s)) \<and> f t s = None))"
  by (auto simp: bindW_def split: option.splits sum.splits)

lemma inGenerating_iff: "inGenerating v ts = (v \<in> set ts)"
  by (induction ts) (auto simp: Identical_def)

lemma walkFields_total:
  assumes "\<And>src snk t s. w src snk t s \<noteq> None"
  shows "walkFields w ne skips source sink fs st \<noteq> None"
proof (induction fs arbitrary: st ne)
  case Nil
  show ?case by simp
next
  case (Cons f fs)
  show ?case
    using assms Cons.IH by (simp add: Let_def bindW_None_iff del: not_None_eq)
qed

lemma walkUnder_total:
  assumes "\<And>src snk t s. w src snk t s \<noteq> None"
  shows "walkUnder w g env x skips generating depth initial ne source sink u st \<noteq> None"
proof (cases u)
  case (Struct fs)
  then show ?thesis
    using walkFields_total [OF assms] by (simp add: walkUnder_def del: not_None_eq)
next
  case (Slice e)
  then show ?thesis
    using assms
    by (simp add: walkUnder_def walkSlice_def split_def Let_def bindW_None_iff del: not_None_eq)
next
  case (Pointer e)
  then show ?thesis
    using assms
    by (simp add: walkUnder_def walkPointer_def split_def Let_def bindW_None_iff del: not_None_eq)
next
  case (Chan d e)
  then show ?thesis by (simp add: walkUnder_def walkChan_def split_def Let_def)
next
  case (Map k e)
  then show ?thesis
    using assms
    by (simp add: walkUnder_def walkMap_def split_def Let_def bindW_None_iff del: not_None_eq)
qed (simp_all add: walkUnder_def)

lemma cutoff_total: "cutoff env generating depth sink st \<noteq> None"
  by (simp add: cutoff_def Let_def split: list.splits)

lemma walkType_total:
  "0 < maxDepth g \<Longrightarrow> nat (maxDepth g - depth) < fuel \<Longrightarrow>
   walkType fuel g env x skips generating depth source sink m st \<noteq> None"
proof (induction fuel arbitrary: depth source sink m st)
  case 0
  then show ?case by simp
next
  case (Suc n)
  show ?case
  proof (cases "cutoffTaken g depth")
    case True
    then show ?thesis using cutoff_total by (simp del: not_None_eq)
  next
    case False
    with Suc.prems have "depth < maxDepth g"
      by (simp add: cutoffTaken_def split: if_splits)
    with Suc.prems have "nat (maxDepth g - (depth + 1)) < n" by linarith
    then have rec:
      "\<And>src snk t s. walkType n g env x skips generating (depth + 1) src snk t s \<noteq> None"
      using Suc.IH Suc.prems(1) by blast
    show ?thesis
      using False walkUnder_total [of "walkType n g env x skips generating (depth + 1)", OF rec]
      by (simp add: Let_def del: not_None_eq)
  qed
qed

lemma locateAll_not_found:
  "kind \<in> set types \<Longrightarrow> locateIn env kind (pName p) (pDefs p) = None \<Longrightarrow>
   \<exists>msg. locateAll env types p = Inl (Error msg)"
proof (induction types)
  case Nil
  then show ?case by simp
next
  case (Cons k ks)
  show ?case
  proof (cases "locateIn env k (pName p) (pDefs p)")
    case None
    then show ?thesis by (simp add: locateType_def)
  next
    case (Some m)
    with Cons.prems have "kind \<in> set ks" by auto
    with Cons.IH Cons.prems obtain msg where "locateAll env ks p = Inl (Error msg)" by blast
    with Some show ?thesis by (simp add: locateType_def)
  qed
qed









subsection \<open>Skip lists\<close>

text \<open>
  C10. \<open>SkipLists.Get\<close> returns for every index \<open>i\<close> (a position of the loop of
  \<open>Generate\<close>, counted from 0) the \<open>i\<close>-th skip set when there is one and the empty skip
  set otherwise; it does not fault, and the empty skip set contains no selector.
\<close>

theorem SkipLists_Get_total:
  "SkipLists_Get l (int i) = Inr (if i < length l then l ! i else {}) \<and>
   (if i < length l then True
    else (\<exists>s. SkipLists_Get l (int i) = Inr s \<and> (\<forall>sel. skips_Contains s sel = False)))"
  by (simp add: SkipLists_Get_def skips_Contains_def)

subsection \<open>The method-reuse detector\<close>

text \<open>
  C5. A type identical to a member of the generating set is reported as found, with the
  result shape of the configured receiver, whatever its method set holds: the first loop
  of \<open>hasDeepCopy\<close> returns before the methods are looked at.
\<close>

theorem hasDeepCopy_generating:
  "t \<in> set generating \<Longrightarrow> Identical v t \<Longrightarrow>
   hasDeepCopy g v ms generating = (True, isPtrRecv g)"
  by (simp add: hasDeepCopy_def inGenerating_iff Identical_def)

text \<open>The witness: \<open>U\<close> has a \<open>DeepCopy\<close> returning \<open>*U\<close>, which the method scan alone
  reports as a pointer result; as a member of the generating set \<open>U\<close> is reported with
  the value receiver of the configuration.\<close>

theorem hasDeepCopy_generating_witness:
  "Named 1 \<in> set [Named 0, Named 1] \<and> Identical (Named 1) (Named 1) \<and>
   scanMethods ''DeepCopy'' [Func ''DeepCopy'' [] [Pointer (Named 1)] (Named 1)] = (True, True) \<and>
   hasDeepCopy (exGen 0) (Named 1) [Func ''DeepCopy'' [] [Pointer (Named 1)] (Named 1)]
     [Named 0, Named 1] = (True, False)"
  using hasDeepCopy_generating [of "Named 1" "[Named 0, Named 1]" "Named 1" "exGen 0"
     "[Func ''DeepCopy'' [] [Pointer (Named 1)] (Named 1)]"]
  by (simp add: Identical_def exGen_def)

text \<open>
  C2. The claim: a method of the configured name counts only when it takes no parameter
  and returns one result that is the receiver type, after stripping at most one pointer
  from each. The code at \<open>type U struct{}\<close> with \<open>func (u U) DeepCopy() []U\<close>:
  \<open>reducePointer\<close> strips the slice as if it were a pointer, and the detector reports
  the method as a match with a pointer result. The detector written from the
  specification reports no match.
\<close>

theorem hasDeepCopy_slice_result:
  "hasDeepCopy (exGen 0) (Named 0) (methods (envSliceMethod 0)) [] = (True, True) \<and>
   hasDeepCopy_spec (exGen 0) (Named 0) (methods (envSliceMethod 0)) [] = (False, False)"
  by (simp add: hasDeepCopy_def hasDeepCopy_spec_def envSliceMethod_def exDecl_def exGen_def
      Identical_def)


subsection \<open>The walker\<close>

text \<open>
  C3. The claim: at a positive maximum depth, a walk call whose depth has reached the
  maximum only logs and returns. The code builds the path for the log line with
  \<open>p[1:len(p)-1]\<close>, where \<open>p\<close> is \<open>sink\<close> split at dots; a sink with no dot (the element
  \<open>cp[i]\<close> of a root slice, the key and value temporaries of a map, the pointee of a root
  pointer) gives \<open>p[1:0]\<close>, a run-time panic. At \<open>type T []int\<close> with maximum depth 1 the
  walk of \<open>T\<close> panics in the call for the element.
\<close>

theorem walkType_cutoff_panics:
  "walkType 2 (exGen 1) envSlice ''p'' {} [Named 0] 0 ''o'' ''cp'' (Named 0) exState
     = Some (Inl (Panic ''slice bounds out of range [1:0]'')) \<and>
   cutoffTaken (exGen 1) 1 \<and>
   walkType 1 (exGen 1) envSlice ''p'' {} [Named 0] 1 ''o[i]'' ''cp[i]'' (Basic ''int'') exState
     = Some (Inl (Panic ''slice bounds out of range [1:0]''))"
  by code_simp

text \<open>
  C4. With a positive maximum depth the walk of a type returns for every type table,
  cyclic ones included: fuel above \<open>maxDepth - depth\<close> is enough, since every call passes
  \<open>depth + 1\<close> on and a call at \<open>depth \<ge> maxDepth\<close> makes no further call. The value
  returned is the text of a completed walk or the panic of the cutoff.
\<close>

theorem walkType_terminates:
  "0 < maxDepth g \<Longrightarrow> nat (maxDepth g - depth) < fuel \<Longrightarrow>
   \<exists>r. walkType fuel g env x skips generating depth source sink m st = Some r"
  using walkType_total [of g depth fuel env x skips generating source sink m st] by auto

theorem walkType_terminates_witness:
  "0 < maxDepth (exGen 3) \<and> nat (maxDepth (exGen 3) - 0) < 4 \<and>
   walkType 3 (exGen 0) envCyclic ''p'' {} [Named 0] 0 ''o'' ''cp'' (Named 0) exState = None \<and>
   (\<exists>r. walkType 4 (exGen 3) envCyclic ''p'' {} [Named 0] 0 ''o'' ''cp'' (Named 0) exState = Some r)"
proof -
  have h1: "0 < maxDepth (exGen 3)" by (simp add: exGen_def)
  have h2: "nat (maxDepth (exGen 3) - 0) < 4" by (simp add: exGen_def)
  have h3: "walkType 3 (exGen 0) envCyclic ''p'' {} [Named 0] 0 ''o'' ''cp'' (Named 0) exState = None"
    by code_simp
  show ?thesis
    using h1 h2 h3 walkType_terminates [OF h1 h2, of envCyclic "''p''" "{}" "[Named 0]" "''o''" "''cp''" "Named 0" exState]
    by blast
qed




text \<open>
  C1, as amended. For a walk call that reaches the switch on a map type, one lookup sets
  \<open>skipKey\<close> and \<open>skipValue\<close> together. The selector looked up is \<open>[k]\<close> at the root
  call and otherwise \<open>sink[k]\<close> taken after its first dot. When the selector is in the
  skip set neither key nor value is walked and every entry is inserted as it is; when it
  is not, the key and the value are both walked, with the same skip set, and each is
  replaced by a temporary exactly when its walk wrote text.
\<close>

theorem walkType_map:
  assumes "Underlying env m = Map k e"
    and "\<not> cutoffTaken g depth"
    and "fst (reuseCheck g env (depth = 0) source sink m generating) = False"
  shows "(let kk = getElemType env k x (importTab st);
              vk = getElemType env e x (snd kk);
              st2 = st\<lparr>importTab := snd vk\<rparr>;
              key = ''k'' @ (if depth + 1 > 1 then Itoa (depth + 1) else []);
              val = ''v'' @ (if depth + 1 > 1 then Itoa (depth + 1) else []);
              hd0 = mapHead source sink (fst kk) (fst vk) key val;
              copyK = selToIdent sink @ ''_'' @ key;
              copyV = selToIdent sink @ ''_'' @ val;
              w = walkType n g env x skips generating (depth + 1)
          in mapSel (depth = 0) sink =
               (if depth = 0 then ''[k]'' else afterFirstDot (sink @ ''[k]'')) \<and>
             mapSkips skips (mapSel (depth = 0) sink) =
               (mapSel (depth = 0) sink \<in> skips, mapSel (depth = 0) sink \<in> skips) \<and>
             walkType (Suc n) g env x skips generating depth source sink m st =
               (if mapSel (depth = 0) sink \<in> skips
                then Some (Inr (hd0 @ mapInsert sink key val, st2))
                else bindW (w key copyK k st2)
                       (\<lambda>bk st3. bindW (w val copyV e st3)
                          (\<lambda>bv st4. Some (Inr (hd0 @
                             (if bk \<noteq> [] then ''var '' @ copyK @ '' '' @ fst kk @ NL @ bk else []) @
                             (if bv \<noteq> [] then ''var '' @ copyV @ '' '' @ fst vk @ NL @ bv else []) @
                             mapInsert sink (if bk \<noteq> [] then copyK else key)
                                            (if bv \<noteq> [] then copyV else val), st4))))))"
proof -
  have n: "m \<noteq> NoType" using assms(1) by (cases m) auto
  have s: "afterFirstDot ''[k]'' = ''[k]''"
    by (simp add: afterFirstDot_def)
  show ?thesis
    using n assms
    by (cases "depth = 0")
       (simp_all add: walkUnder_def walkMap_def mapSkips_def skips_Contains_def mapSel_def s
          split_def Let_def)
qed

theorem walkType_map_witness:
  "Underlying envMap (Map (Basic ''string'') (Slice (Basic ''int''))) =
     Map (Basic ''string'') (Slice (Basic ''int'')) \<and>
   \<not> cutoffTaken (exGen 0) 1 \<and>
   fst (reuseCheck (exGen 0) envMap (1 = (0::int)) ''o.M'' ''cp.M''
          (Map (Basic ''string'') (Slice (Basic ''int''))) [Named 0]) = False \<and>
   mapSel (1 = (0::int)) ''cp.M'' = ''M[k]'' \<and>
   walkType (Suc 2) (exGen 0) envMap ''p'' {''M[k]''} [Named 0] 1 ''o.M'' ''cp.M''
       (Map (Basic ''string'') (Slice (Basic ''int''))) exState =
     Some (Inr (mapHead ''o.M'' ''cp.M'' ''string'' ''[]int'' ''k2'' ''v2'' @
                mapInsert ''cp.M'' ''k2'' ''v2'', exState))"
proof -
  have h1: "Underlying envMap (Map (Basic ''string'') (Slice (Basic ''int''))) =
     Map (Basic ''string'') (Slice (Basic ''int''))" by simp
  have h2: "\<not> cutoffTaken (exGen 0) 1" by (simp add: cutoffTaken_def exGen_def)
  have h3: "fst (reuseCheck (exGen 0) envMap (1 = (0::int)) ''o.M'' ''cp.M''
          (Map (Basic ''string'') (Slice (Basic ''int''))) [Named 0]) = False"
    by (simp add: reuseCheck_def)
  have sel: "mapSel (1 = (0::int)) ''cp.M'' = ''M[k]''" by code_simp
  have sel': "mapSel False ''cp.M'' = ''M[k]''" by code_simp
  have e1: "getElemType envMap (Basic ''string'') ''p'' [] = (''string'', [])"
    by (simp add: getElemType_def)
  have e2: "getElemType envMap (Slice (Basic ''int'')) ''p'' [] = (''[]int'', [])"
    by (simp add: getElemType_def)
  have i: "Itoa 2 = ''2''" by code_simp
  show ?thesis
    using h1 h2 h3 sel
      walkType_map [where n = 2 and x = "''p''" and skips = "{''M[k]''}" and st = exState,
        OF h1 h2 h3]
    by (simp add: Let_def e1 e2 i sel' exState_def)
qed

text \<open>
  C1, as stated, fails at \<open>type T struct { M map[string][]int }\<close> with the skip entry
  \<open>M[k]\<close>, the key path of the map: the claim has the values deep-copied and only the
  keys shared, and the code inserts \<open>cp.M[k2] = v2\<close>, sharing the value slices too.
  Without the entry the value is copied into \<open>cp_M_v2\<close>.
\<close>

theorem map_key_skip_counterexample:
  "walkType 4 (exGen 0) envMap ''p'' {''M[k]''} [Named 0] 0 ''o'' ''cp'' (Named 0) exState =
     Some (Inr (''if o.M != nil {'' @ NL @
                TAB @ ''cp.M = make(map[string][]int, len(o.M))'' @ NL @
                TAB @ ''for k2, v2 := range o.M {'' @ NL @
                ''cp.M[k2] = v2}'' @ NL @ ''}'' @ NL, exState)) \<and>
   walkType 4 (exGen 0) envMap ''p'' {} [Named 0] 0 ''o'' ''cp'' (Named 0) exState =
     Some (Inr (''if o.M != nil {'' @ NL @
                TAB @ ''cp.M = make(map[string][]int, len(o.M))'' @ NL @
                TAB @ ''for k2, v2 := range o.M {'' @ NL @
                ''var cp_M_v2 []int'' @ NL @
                ''if v2 != nil {'' @ NL @
                TAB @ ''cp_M_v2 = make([]int, len(v2))'' @ NL @
                ''copy(cp_M_v2, v2)'' @ NL @
                ''}'' @ NL @
                ''cp.M[k2] = cp_M_v2}'' @ NL @ ''}'' @ NL, exState))"
  by code_simp

text \<open>
  C6. The reuse check. At depth 0 a walk call goes to the switch on the underlying type
  without asking the detector. At any other depth, unless the depth limit cuts the call
  off, a type with a method set for which the detector reports a match gets a call of
  the method and no recursion: a plain assignment when a value is wanted and the method
  returns a value, a dereference of the result inside a block when it returns a pointer.
  For a pointer whose pointee matches, inside the nil guard: a plain assignment when the
  method returns a pointer, the result stored in \<open>retV\<close> and its address taken when it
  returns a value.
\<close>

theorem reuse_policy:
  "(m \<noteq> NoType \<longrightarrow>
      walkType (Suc n) g env x skips generating 0 source sink m st =
        walkUnder (walkType n g env x skips generating 1) g env x skips generating 1 True
          (needExported env x m) source sink (Underlying env m) st) \<and>
   (depth \<noteq> 0 \<and> \<not> cutoffTaken g depth \<and>
    methoder env m = Some ms \<and> hasDeepCopy g m ms generating = (True, isPtr) \<longrightarrow>
      walkType (Suc n) g env x skips generating depth source sink m st =
        Some (Inr (if isPtr
                   then ''{'' @ NL @ TAB @ ''retV := '' @ source @ ''.'' @ methodName g @ ''()'' @ NL @
                        TAB @ sink @ '' = *retV'' @ NL @ ''}'' @ NL
                   else sink @ '' = '' @ source @ ''.'' @ methodName g @ ''()'' @ NL, st))) \<and>
   (depth \<noteq> 0 \<and> \<not> cutoffTaken g depth \<and>
    fst (reuseCheck g env False source sink m generating) = False \<and>
    Underlying env m = Pointer e \<and>
    methoder env e = Some ms \<and> hasDeepCopy g e ms generating = (True, isPtr) \<longrightarrow>
      walkType (Suc n) g env x skips generating depth source sink m st =
        Some (Inr (''if '' @ source @ '' != nil {'' @ NL @
                   (if isPtr
                    then sink @ '' = '' @ source @ ''.'' @ methodName g @ ''()'' @ NL
                    else ''retV := '' @ source @ ''.'' @ methodName g @ ''()'' @ NL @
                         TAB @ sink @ '' = &retV'' @ NL) @
                   ''}'' @ NL, st)))"
proof (intro conjI impI)
  assume "m \<noteq> NoType"
  then show "walkType (Suc n) g env x skips generating 0 source sink m st =
        walkUnder (walkType n g env x skips generating 1) g env x skips generating 1 True
          (needExported env x m) source sink (Underlying env m) st"
    by (simp add: reuseCheck_def cutoffTaken_def split: option.splits)
next
  assume a: "depth \<noteq> 0 \<and> \<not> cutoffTaken g depth \<and>
    methoder env m = Some ms \<and> hasDeepCopy g m ms generating = (True, isPtr)"
  then have "m \<noteq> NoType" by auto
  with a show "walkType (Suc n) g env x skips generating depth source sink m st =
        Some (Inr (if isPtr
                   then ''{'' @ NL @ TAB @ ''retV := '' @ source @ ''.'' @ methodName g @ ''()'' @ NL @
                        TAB @ sink @ '' = *retV'' @ NL @ ''}'' @ NL
                   else sink @ '' = '' @ source @ ''.'' @ methodName g @ ''()'' @ NL, st))"
    by (simp add: reuseCheck_def reuseDeepCopy_def)
next
  assume a: "depth \<noteq> 0 \<and> \<not> cutoffTaken g depth \<and>
    fst (reuseCheck g env False source sink m generating) = False \<and>
    Underlying env m = Pointer e \<and>
    methoder env e = Some ms \<and> hasDeepCopy g e ms generating = (True, isPtr)"
  then have "m \<noteq> NoType" by auto
  with a show "walkType (Suc n) g env x skips generating depth source sink m st =
        Some (Inr (''if '' @ source @ '' != nil {'' @ NL @
                   (if isPtr
                    then sink @ '' = '' @ source @ ''.'' @ methodName g @ ''()'' @ NL
                    else ''retV := '' @ source @ ''.'' @ methodName g @ ''()'' @ NL @
                         TAB @ sink @ '' = &retV'' @ NL) @
                   ''}'' @ NL, st))"
    by (simp add: walkUnder_def walkPointer_def reuseDeepCopy_def)
qed

theorem reuse_policy_witness:
  "hasDeepCopy (exGen 0) (Named 0) [] [Named 0] = (True, False) \<and>
   walkType (Suc 1) (exGen 0) envReuse ''p'' {} [Named 0] 0 ''o'' ''cp'' (Named 0) exState =
     Some (Inr (''cp.A = o.A.DeepCopy()'' @ NL @
                ''if o.P != nil {'' @ NL @
                ''retV := o.P.DeepCopy()'' @ NL @ TAB @ ''cp.P = &retV'' @ NL @
                ''}'' @ NL, exState)) \<and>
   methoder envReuse (Named 1) = Some (methods (envReuse 1)) \<and>
   hasDeepCopy (exGen 0) (Named 1) (methods (envReuse 1)) [Named 0] = (True, False) \<and>
   walkType (Suc 0) (exGen 0) envReuse ''p'' {} [Named 0] 1 ''o.A'' ''cp.A'' (Named 1) exState =
     Some (Inr (''cp.A = o.A.DeepCopy()'' @ NL, exState)) \<and>
   walkType (Suc 0) (exGen 0) envReuse ''p'' {} [Named 0] 1 ''o.P'' ''cp.P'' (Pointer (Named 1))
       exState =
     Some (Inr (''if o.P != nil {'' @ NL @
                ''retV := o.P.DeepCopy()'' @ NL @ TAB @ ''cp.P = &retV'' @ NL @
                ''}'' @ NL, exState))"
proof -
  have d: "(1::int) \<noteq> 0" by simp
  have c: "\<not> cutoffTaken (exGen 0) 1" by (simp add: cutoffTaken_def exGen_def)
  have m1: "methoder envReuse (Named 1) = Some (methods (envReuse 1))" by simp
  have f1: "hasDeepCopy (exGen 0) (Named 1) (methods (envReuse 1)) [Named 0] = (True, False)"
    by code_simp
  have r0: "fst (reuseCheck (exGen 0) envReuse False ''o.P'' ''cp.P'' (Pointer (Named 1))
                  [Named 0]) = False"
    by (simp add: reuseCheck_def)
  have u: "Underlying envReuse (Pointer (Named 1)) = Pointer (Named 1)" by simp
  have root: "hasDeepCopy (exGen 0) (Named 0) [] [Named 0] = (True, False)" by code_simp
  have w0: "walkUnder (walkType 1 (exGen 0) envReuse ''p'' {} [Named 0] 1) (exGen 0) envReuse
              ''p'' {} [Named 0] 1 True (needExported envReuse ''p'' (Named 0)) ''o'' ''cp''
              (Underlying envReuse (Named 0)) exState =
     Some (Inr (''cp.A = o.A.DeepCopy()'' @ NL @
                ''if o.P != nil {'' @ NL @
                ''retV := o.P.DeepCopy()'' @ NL @ TAB @ ''cp.P = &retV'' @ NL @
                ''}'' @ NL, exState))"
    by code_simp
  have n: "methodName (exGen 0) = ''DeepCopy''" by (simp add: exGen_def)
  have c1: "walkType (Suc 1) (exGen 0) envReuse ''p'' {} [Named 0] 0 ''o'' ''cp'' (Named 0) exState =
     Some (Inr (''cp.A = o.A.DeepCopy()'' @ NL @
                ''if o.P != nil {'' @ NL @
                ''retV := o.P.DeepCopy()'' @ NL @ TAB @ ''cp.P = &retV'' @ NL @
                ''}'' @ NL, exState))"
    using reuse_policy [where m = "Named 0" and n = 1 and g = "exGen 0" and env = envReuse
        and x = "''p''" and skips = "{}" and generating = "[Named 0]" and source = "''o''"
        and sink = "''cp''" and st = exState, THEN conjunct1] w0
    by (simp del: walkType.simps)
  have c2: "walkType (Suc 0) (exGen 0) envReuse ''p'' {} [Named 0] 1 ''o.A'' ''cp.A'' (Named 1)
       exState = Some (Inr (''cp.A = o.A.DeepCopy()'' @ NL, exState))"
    using reuse_policy [where m = "Named 1" and n = 0 and g = "exGen 0" and env = envReuse
        and x = "''p''" and skips = "{}" and generating = "[Named 0]" and source = "''o.A''"
        and sink = "''cp.A''" and st = exState and depth = 1 and ms = "methods (envReuse 1)"
        and isPtr = False, THEN conjunct2, THEN conjunct1] d c m1 f1
    by (simp add: n del: walkType.simps)
  have c3: "walkType (Suc 0) (exGen 0) envReuse ''p'' {} [Named 0] 1 ''o.P'' ''cp.P''
       (Pointer (Named 1)) exState =
     Some (Inr (''if o.P != nil {'' @ NL @
                ''retV := o.P.DeepCopy()'' @ NL @ TAB @ ''cp.P = &retV'' @ NL @
                ''}'' @ NL, exState))"
    using reuse_policy [where m = "Pointer (Named 1)" and n = 0 and g = "exGen 0"
        and env = envReuse and x = "''p''" and skips = "{}" and generating = "[Named 0]"
        and source = "''o.P''" and sink = "''cp.P''" and st = exState and depth = 1
        and ms = "methods (envReuse 1)" and isPtr = False and e = "Named 1",
        THEN conjunct2, THEN conjunct2] d c r0 u m1 f1
    by (simp add: n del: walkType.simps)
  show ?thesis using root c1 m1 f1 c2 c3 by blast
qed


subsection \<open>Generate\<close>

text \<open>
  C7. \<open>Generate\<close> writes nothing when it fails on one of its hard errors. A requested
  type that is not found makes it return an error with the destination untouched, also
  when other requested types are found; so does a package without syntax, and so does a
  text the formatter rejects, where the error holds the formatter's diagnostic and the
  unformatted text. In every run the destination is either untouched or has received one
  \<open>Write\<close>, the last step of \<open>generateFile\<close>.
\<close>

theorem Generate_all_or_nothing:
  "(kind \<in> set types \<and> locateIn env kind (pName p) (pDefs p) = None \<longrightarrow>
      (\<exists>msg. Generate fuel g env sur w types p = Some (Inl (Error msg), w))) \<and>
   (locateAll env types p = Inr objs \<and> pSyntax p = [] \<longrightarrow>
      Generate fuel g env sur w types p =
        Some (Inl (Error ''getting receiver names: packages.Package has no Syntax.''), w)) \<and>
   (locateAll env types p = Inr objs \<and> getReceiverNames (pSyntax p) = Inr rn \<and>
    generateFuncs fuel g env rn (pName p) objs 0 objs \<lparr>importTab = [], logs = []\<rparr>
      = Some (Inr (fns, st)) \<and>
    formatSource sur (fileText (osArgs sur) (pName p) (rangeOrder sur (importTab st)) fns)
      = Inl err \<longrightarrow>
      Generate fuel g env sur w types p =
        Some (Inl (Error (''generating file content: error formatting source: '' @ err @ NL @
                          ''source:'' @ NL @
                          fileText (osArgs sur) (pName p) (rangeOrder sur (importTab st)) fns)),
              w)) \<and>
   (Generate fuel g env sur w types p = Some (r, w') \<longrightarrow>
      w' = w \<or> (\<exists>b. w' = fst (writeTo sur w b)))"
proof (intro conjI impI)
  assume "kind \<in> set types \<and> locateIn env kind (pName p) (pDefs p) = None"
  then obtain msg where "locateAll env types p = Inl (Error msg)"
    using locateAll_not_found by blast
  then show "\<exists>msg. Generate fuel g env sur w types p = Some (Inl (Error msg), w)"
    by (simp add: Generate_def)
next
  assume "locateAll env types p = Inr objs \<and> pSyntax p = []"
  then show "Generate fuel g env sur w types p =
        Some (Inl (Error ''getting receiver names: packages.Package has no Syntax.''), w)"
    by (simp add: Generate_def getReceiverNames_def wrapError_def)
next
  assume "locateAll env types p = Inr objs \<and> getReceiverNames (pSyntax p) = Inr rn \<and>
    generateFuncs fuel g env rn (pName p) objs 0 objs \<lparr>importTab = [], logs = []\<rparr>
      = Some (Inr (fns, st)) \<and>
    formatSource sur (fileText (osArgs sur) (pName p) (rangeOrder sur (importTab st)) fns)
      = Inl err"
  then show "Generate fuel g env sur w types p =
        Some (Inl (Error (''generating file content: error formatting source: '' @ err @ NL @
                          ''source:'' @ NL @
                          fileText (osArgs sur) (pName p) (rangeOrder sur (importTab st)) fns)),
              w)"
    by (simp add: Generate_def generateFile_def wrapError_def Let_def)
next
  assume "Generate fuel g env sur w types p = Some (r, w')"
  then show "w' = w \<or> (\<exists>b. w' = fst (writeTo sur w b))"
    by (auto simp: Generate_def generateFile_def Let_def
        split: sum.splits option.splits prod.splits) (metis fst_conv)+
qed

theorem Generate_all_or_nothing_witness:
  "locateIn envEmpty ''T'' (pName exPackage) (pDefs exPackage) = Some (Named 0) \<and>
   locateIn envEmpty ''Missing'' (pName exPackage) (pDefs exPackage) = None \<and>
   (\<exists>msg. Generate 1 (exGen 0) envEmpty (exSur acceptSource) [''before''] [''T'', ''Missing'']
             exPackage = Some (Inl (Error msg), [''before''])) \<and>
   Generate 1 (exGen 0) envEmpty (exSur acceptSource) [''before''] [''T'']
       (exPackage\<lparr>pSyntax := []\<rparr>) =
     Some (Inl (Error ''getting receiver names: packages.Package has no Syntax.''), [''before'']) \<and>
   Generate 1 (exGen 0) envEmpty (exSur rejectSource) [''before''] [''T''] exPackage =
     Some (Inl (Error (''generating file content: error formatting source: '' @
                       ''1:1: expected declaration'' @ NL @ ''source:'' @ NL @
                       fileText [''deep-copy'', ''T''] ''p'' [] [exFunc])), [''before'']) \<and>
   Generate 1 (exGen 0) envEmpty (exSur acceptSource) [''before''] [''T''] exPackage =
     Some (Inr (), [''before'', fileText [''deep-copy'', ''T''] ''p'' [] [exFunc]])"
proof -
  have l1: "locateIn envEmpty ''T'' (pName exPackage) (pDefs exPackage) = Some (Named 0)"
    by code_simp
  have l2: "locateIn envEmpty ''Missing'' (pName exPackage) (pDefs exPackage) = None"
    by code_simp
  have m: "''Missing'' \<in> set [''T'', ''Missing'']" by simp
  have la: "locateAll envEmpty [''T''] exPackage = Inr [Named 0]" by code_simp
  have la': "locateAll envEmpty [''T''] (exPackage\<lparr>pSyntax := []\<rparr>) = Inr [Named 0]"
    by code_simp
  have s: "pSyntax (exPackage\<lparr>pSyntax := []\<rparr>) = []" by simp
  have rn: "getReceiverNames (pSyntax exPackage) = Inr [(''T'', ''t'')]" by code_simp
  have gf: "generateFuncs 1 (exGen 0) envEmpty [(''T'', ''t'')] (pName exPackage) [Named 0] 0
              [Named 0] \<lparr>importTab = [], logs = []\<rparr> =
            Some (Inr ([exFunc], \<lparr>importTab = [], logs = []\<rparr>))"
    by code_simp
  have fe: "formatSource (exSur rejectSource)
              (fileText (osArgs (exSur rejectSource)) (pName exPackage)
                 (rangeOrder (exSur rejectSource) (importTab \<lparr>importTab = [], logs = []\<rparr>))
                 [exFunc]) = Inl ''1:1: expected declaration''"
    by (simp add: exSur_def rejectSource_def)
  have a: "\<exists>msg. Generate 1 (exGen 0) envEmpty (exSur acceptSource) [''before'']
             [''T'', ''Missing''] exPackage = Some (Inl (Error msg), [''before''])"
    using Generate_all_or_nothing [where kind = "''Missing''" and types = "[''T'', ''Missing'']"
        and env = envEmpty and p = exPackage and fuel = 1 and g = "exGen 0"
        and sur = "exSur acceptSource" and w = "[''before'']", THEN conjunct1] m l2
    by blast
  have b: "Generate 1 (exGen 0) envEmpty (exSur acceptSource) [''before''] [''T'']
       (exPackage\<lparr>pSyntax := []\<rparr>) =
     Some (Inl (Error ''getting receiver names: packages.Package has no Syntax.''), [''before''])"
    using Generate_all_or_nothing [where types = "[''T'']" and objs = "[Named 0]"
        and env = envEmpty and p = "exPackage\<lparr>pSyntax := []\<rparr>" and fuel = 1 and g = "exGen 0"
        and sur = "exSur acceptSource" and w = "[''before'']", THEN conjunct2, THEN conjunct1]
      la' s
    by blast
  have c: "Generate 1 (exGen 0) envEmpty (exSur rejectSource) [''before''] [''T''] exPackage =
     Some (Inl (Error (''generating file content: error formatting source: '' @
                       ''1:1: expected declaration'' @ NL @ ''source:'' @ NL @
                       fileText [''deep-copy'', ''T''] ''p'' [] [exFunc])), [''before''])"
    using Generate_all_or_nothing [where types = "[''T'']" and objs = "[Named 0]"
        and env = envEmpty and p = exPackage and fuel = 1 and g = "exGen 0"
        and sur = "exSur rejectSource" and w = "[''before'']" and rn = "[(''T'', ''t'')]"
        and fns = "[exFunc]" and st = "\<lparr>importTab = [], logs = []\<rparr>"
        and err = "''1:1: expected declaration''",
        THEN conjunct2, THEN conjunct2, THEN conjunct1]
      la rn gf fe
    by (simp add: exSur_def exPackage_def)
  have d: "Generate 1 (exGen 0) envEmpty (exSur acceptSource) [''before''] [''T''] exPackage =
     Some (Inr (), [''before'', fileText [''deep-copy'', ''T''] ''p'' [] [exFunc]])"
    using la rn gf
    by (simp add: Generate_def generateFile_def exSur_def acceptSource_def exPackage_def)
  show ?thesis using l1 l2 a b c d by blast
qed





end
